theory Spec2Isabelle
  imports Complex_Main
begin

section \<open>Data model (types.ts)\<close>

text \<open>
  The source computes with JavaScript numbers (IEEE-754 doubles). They are modelled by
  \<^typ>\<open>real\<close>: every arithmetic operation of the source is the exact operation on
  reals, so the model follows the source up to rounding and on finite values only
  (no \<open>NaN\<close>, no \<open>Infinity\<close>). Division by zero, which yields \<open>Infinity\<close> or
  \<open>NaN\<close> in the source, is kept out of the theorems about computed values by the
  hypothesis \<open>0 < mass\<close>.
\<close>

record Vector3 =
  x :: real
  y :: real
  z :: real

record SimulationParams =
  mass :: real
  charge :: real
  velocity :: Vector3
  bField :: Vector3

record SimulationState =
  position :: Vector3
  velocity_s :: Vector3
  history :: "Vector3 list"
  time :: real

record CameraState =
  pitch :: real
  yaw :: real
  zoom :: real

section \<open>Constants of SimulationCanvas\<close>

definition AXIS_DRAW_EXTENT :: real where
  "AXIS_DRAW_EXTENT = 100000"

definition BOUNDS_LIMIT :: real where
  "BOUNDS_LIMIT = 320"

definition TRAIL_LENGTH :: nat where
  "TRAIL_LENGTH = 3000"

definition DT :: real where
  "DT = 0.05"

section \<open>The integrator: stepPhysics\<close>

text \<open>
  \<open>stepPhysics\<close> either calls \<open>onStop()\<close> and returns at once, or runs to its end.
  The model returns which of the two happened together with the content of
  \<open>stateRef.current\<close> afterwards.
\<close>

datatype signal = OnStop | Stepped

definition out_of_bounds :: "Vector3 \<Rightarrow> bool" where
  "out_of_bounds r \<longleftrightarrow>
     \<bar>x r\<bar> > BOUNDS_LIMIT \<or> \<bar>y r\<bar> > BOUNDS_LIMIT \<or> \<bar>z r\<bar> > BOUNDS_LIMIT"

definition accel :: "SimulationParams \<Rightarrow> Vector3 \<Rightarrow> Vector3" where
  "accel ps vel =
     (let qm = charge ps / mass ps;
          crossX = y vel * z (bField ps) - z vel * y (bField ps);
          crossY = z vel * x (bField ps) - x vel * z (bField ps);
          crossZ = x vel * y (bField ps) - y vel * x (bField ps)
      in \<lparr>x = qm * crossX, y = qm * crossY, z = qm * crossZ\<rparr>)"

definition push_history :: "Vector3 list \<Rightarrow> Vector3 \<Rightarrow> Vector3 list" where
  "push_history h newR =
     (let h1 = h @ [newR]
      in if length h1 > TRAIL_LENGTH then tl h1 else h1)"

definition stepPhysics :: "SimulationParams \<Rightarrow> SimulationState \<Rightarrow> signal \<times> SimulationState" where
  "stepPhysics ps st =
     (let r = position st; v = velocity_s st
      in if \<bar>x r\<bar> > BOUNDS_LIMIT \<or> \<bar>y r\<bar> > BOUNDS_LIMIT \<or> \<bar>z r\<bar> > BOUNDS_LIMIT
         then (OnStop, st)
         else
           let a1 = accel ps v;
               k1v = \<lparr>x = x a1 * DT, y = y a1 * DT, z = z a1 * DT\<rparr>;
               k1r = \<lparr>x = x v * DT, y = y v * DT, z = z v * DT\<rparr>;
               v2 = \<lparr>x = x v + x k1v * 0.5, y = y v + y k1v * 0.5, z = z v + z k1v * 0.5\<rparr>;
               a2 = accel ps v2;
               k2v = \<lparr>x = x a2 * DT, y = y a2 * DT, z = z a2 * DT\<rparr>;
               k2r = \<lparr>x = x v2 * DT, y = y v2 * DT, z = z v2 * DT\<rparr>;
               v3 = \<lparr>x = x v + x k2v * 0.5, y = y v + y k2v * 0.5, z = z v + z k2v * 0.5\<rparr>;
               a3 = accel ps v3;
               k3v = \<lparr>x = x a3 * DT, y = y a3 * DT, z = z a3 * DT\<rparr>;
               k3r = \<lparr>x = x v3 * DT, y = y v3 * DT, z = z v3 * DT\<rparr>;
               v4 = \<lparr>x = x v + x k3v, y = y v + y k3v, z = z v + z k3v\<rparr>;
               a4 = accel ps v4;
               k4v = \<lparr>x = x a4 * DT, y = y a4 * DT, z = z a4 * DT\<rparr>;
               k4r = \<lparr>x = x v4 * DT, y = y v4 * DT, z = z v4 * DT\<rparr>;
               newV = \<lparr>x = x v + (x k1v + 2 * x k2v + 2 * x k3v + x k4v) / 6,
                       y = y v + (y k1v + 2 * y k2v + 2 * y k3v + y k4v) / 6,
                       z = z v + (z k1v + 2 * z k2v + 2 * z k3v + z k4v) / 6\<rparr>;
               newR = \<lparr>x = x r + (x k1r + 2 * x k2r + 2 * x k3r + x k4r) / 6,
                       y = y r + (y k1r + 2 * y k2r + 2 * y k3r + y k4r) / 6,
                       z = z r + (z k1r + 2 * z k2r + 2 * z k3r + z k4r) / 6\<rparr>
           in (Stepped,
               st\<lparr>velocity_s := newV, position := newR, time := time st + DT,
                  history := push_history (history st) newR\<rparr>))"

text \<open>
  The same function with the calls of \<open>accel\<close> recorded: \<open>accel_logged\<close> returns the
  acceleration and appends its argument to the list of calls made so far. No other
  difference to \<open>stepPhysics\<close>.
\<close>

definition accel_logged ::
  "SimulationParams \<Rightarrow> Vector3 \<Rightarrow> Vector3 list \<Rightarrow> Vector3 \<times> Vector3 list" where
  "accel_logged ps vel calls = (accel ps vel, calls @ [vel])"

definition stepPhysics_logged ::
  "SimulationParams \<Rightarrow> SimulationState \<Rightarrow> (signal \<times> SimulationState) \<times> Vector3 list" where
  "stepPhysics_logged ps st =
     (let r = position st; v = velocity_s st
      in if \<bar>x r\<bar> > BOUNDS_LIMIT \<or> \<bar>y r\<bar> > BOUNDS_LIMIT \<or> \<bar>z r\<bar> > BOUNDS_LIMIT
         then ((OnStop, st), [])
         else
           let (a1, c1) = accel_logged ps v [];
               k1v = \<lparr>x = x a1 * DT, y = y a1 * DT, z = z a1 * DT\<rparr>;
               k1r = \<lparr>x = x v * DT, y = y v * DT, z = z v * DT\<rparr>;
               v2 = \<lparr>x = x v + x k1v * 0.5, y = y v + y k1v * 0.5, z = z v + z k1v * 0.5\<rparr>;
               (a2, c2) = accel_logged ps v2 c1;
               k2v = \<lparr>x = x a2 * DT, y = y a2 * DT, z = z a2 * DT\<rparr>;
               k2r = \<lparr>x = x v2 * DT, y = y v2 * DT, z = z v2 * DT\<rparr>;
               v3 = \<lparr>x = x v + x k2v * 0.5, y = y v + y k2v * 0.5, z = z v + z k2v * 0.5\<rparr>;
               (a3, c3) = accel_logged ps v3 c2;
               k3v = \<lparr>x = x a3 * DT, y = y a3 * DT, z = z a3 * DT\<rparr>;
               k3r = \<lparr>x = x v3 * DT, y = y v3 * DT, z = z v3 * DT\<rparr>;
               v4 = \<lparr>x = x v + x k3v, y = y v + y k3v, z = z v + z k3v\<rparr>;
               (a4, c4) = accel_logged ps v4 c3;
               k4v = \<lparr>x = x a4 * DT, y = y a4 * DT, z = z a4 * DT\<rparr>;
               k4r = \<lparr>x = x v4 * DT, y = y v4 * DT, z = z v4 * DT\<rparr>;
               newV = \<lparr>x = x v + (x k1v + 2 * x k2v + 2 * x k3v + x k4v) / 6,
                       y = y v + (y k1v + 2 * y k2v + 2 * y k3v + y k4v) / 6,
                       z = z v + (z k1v + 2 * z k2v + 2 * z k3v + z k4v) / 6\<rparr>;
               newR = \<lparr>x = x r + (x k1r + 2 * x k2r + 2 * x k3r + x k4r) / 6,
                       y = y r + (y k1r + 2 * y k2r + 2 * y k3r + y k4r) / 6,
                       z = z r + (z k1r + 2 * z k2r + 2 * z k3r + z k4r) / 6\<rparr>
           in ((Stepped,
                st\<lparr>velocity_s := newV, position := newR, time := time st + DT,
                   history := push_history (history st) newR\<rparr>), c4))"

section \<open>Repeated steps\<close>

text \<open>
  \<open>animate\<close> calls \<open>stepPhysics\<close> once per frame while \<open>isPlaying\<close> holds.
  \<open>run_steps n\<close> is the state after \<open>n\<close> such calls under unchanged parameters, and
  \<open>all_stepped n\<close> says that none of these \<open>n\<close> calls ended in \<open>onStop\<close>.
\<close>

primrec run_steps :: "nat \<Rightarrow> SimulationParams \<Rightarrow> SimulationState \<Rightarrow> SimulationState" where
  "run_steps 0 ps st = st"
| "run_steps (Suc n) ps st = snd (stepPhysics ps (run_steps n ps st))"

primrec all_stepped :: "nat \<Rightarrow> SimulationParams \<Rightarrow> SimulationState \<Rightarrow> bool" where
  "all_stepped 0 ps st = True"
| "all_stepped (Suc n) ps st =
     (all_stepped n ps st \<and> fst (stepPhysics ps (run_steps n ps st)) = Stepped)"

section \<open>The component's references, the parameter effect and reset\<close>

record Canvas =
  stateRef :: SimulationState
  paramsRef :: SimulationParams
  prevParamsRef :: SimulationParams

definition initial_state :: "SimulationParams \<Rightarrow> SimulationState" where
  "initial_state params =
     \<lparr>position = \<lparr>x = 0, y = 0, z = 0\<rparr>, velocity_s = velocity params,
      history = [], time = 0\<rparr>"

definition mount :: "SimulationParams \<Rightarrow> Canvas" where
  "mount params =
     \<lparr>stateRef = initial_state params, paramsRef = params, prevParamsRef = params\<rparr>"

text \<open>The effect that runs when \<open>params\<close> has changed (\<open>useEffect(..., [params])\<close>).\<close>

definition params_effect :: "SimulationParams \<Rightarrow> Canvas \<Rightarrow> Canvas" where
  "params_effect params c =
     (let prevV = velocity (prevParamsRef c);
          newV = velocity params;
          c1 = (if x prevV \<noteq> x newV \<or> y prevV \<noteq> y newV \<or> z prevV \<noteq> z newV
                then c\<lparr>stateRef := (stateRef c)\<lparr>velocity_s := newV\<rparr>\<rparr>
                else c)
      in c1\<lparr>paramsRef := params, prevParamsRef := params\<rparr>)"

definition resetSimulation :: "SimulationParams \<Rightarrow> Canvas \<Rightarrow> Canvas" where
  "resetSimulation params c =
     c\<lparr>stateRef :=
         \<lparr>position = \<lparr>x = 0, y = 0, z = 0\<rparr>, velocity_s = velocity params,
          history = [], time = 0\<rparr>\<rparr>"

text \<open>The parameters \<open>App\<close> starts with.\<close>

definition initial_params :: SimulationParams where
  "initial_params =
     \<lparr>mass = 2, charge = 1, velocity = \<lparr>x = 5, y = 0, z = 2\<rparr>,
      bField = \<lparr>x = 0, y = 0, z = 2\<rparr>\<rparr>"

section \<open>Projection: project\<close>

text \<open>
  \<open>project\<close> reads the camera from the component's state; the model takes it as an
  argument. The result \<open>{x, y, scale}\<close> is a record whose first two fields are named
  \<open>x_p\<close> and \<open>y_p\<close>.
\<close>

record Point2 =
  x_p :: real
  y_p :: real

record Projected = Point2 +
  scale :: real

definition project :: "CameraState \<Rightarrow> Vector3 \<Rightarrow> real \<Rightarrow> real \<Rightarrow> Projected" where
  "project camera p width height =
     (let cosY = cos (yaw camera);
          sinY = sin (yaw camera);
          x1 = x p * cosY - y p * sinY;
          y1 = x p * sinY + y p * cosY;
          z1 = z p;
          cosP = cos (pitch camera);
          sinP = sin (pitch camera);
          y2 = y1 * cosP - z1 * sinP;
          z2 = y1 * sinP + z1 * cosP;
          fov = 600;
          cameraDistance = 400;
          depth = cameraDistance + y2;
          perspective = fov / max 1 depth;
          scale = perspective * zoom camera;
          centerX = width / 2 - 100
      in \<lparr>x_p = x1 * scale + centerX, y_p = - z2 * scale + height / 2, scale = scale\<rparr>)"

section \<open>Label clipping: getLabelPosition\<close>

text \<open>
  The loop \<open>for (let i = 0; i < 4; i++)\<close> reads \<open>p[i]\<close> and \<open>q[i]\<close> in step; the model
  recurses over the list of the four pairs \<open>(p[i], q[i])\<close> in the same order and carries
  \<open>t0\<close> and \<open>t1\<close>. \<open>None\<close> is a \<open>return null\<close> inside the loop.
  \<open>label_edges\<close> builds the arrays \<open>p\<close> and \<open>q\<close> as the source does.
\<close>

fun clip_loop :: "(real \<times> real) list \<Rightarrow> real \<Rightarrow> real \<Rightarrow> (real \<times> real) option" where
  "clip_loop [] t0 t1 = Some (t0, t1)"
| "clip_loop ((p_i, q_i) # rest) t0 t1 =
     (if p_i = 0 then (if q_i < 0 then None else clip_loop rest t0 t1)
      else
        let t = q_i / p_i
        in if p_i < 0
           then (if t > t1 then None else clip_loop rest (if t > t0 then t else t0) t1)
           else (if t < t0 then None else clip_loop rest t0 (if t < t1 then t else t1)))"

definition label_edges :: "Projected \<Rightarrow> Projected \<Rightarrow> real \<Rightarrow> real \<Rightarrow> (real \<times> real) list" where
  "label_edges p0 p1 width height =
     (let padding = 25;
          minX = padding; maxX = width - padding;
          minY = padding; maxY = height - padding;
          dx = x_p p1 - x_p p0;
          dy = y_p p1 - y_p p0;
          p = [- dx, dx, - dy, dy];
          q = [x_p p0 - minX, maxX - x_p p0, y_p p0 - minY, maxY - y_p p0]
      in zip p q)"

definition getLabelPosition ::
  "CameraState \<Rightarrow> Vector3 \<Rightarrow> Vector3 \<Rightarrow> real \<Rightarrow> real \<Rightarrow> Point2 option" where
  "getLabelPosition camera origin axisTip width height =
     (let p0 = project camera origin width height;
          p1 = project camera axisTip width height;
          dx = x_p p1 - x_p p0;
          dy = y_p p1 - y_p p0
      in case clip_loop (label_edges p0 p1 width height) 0 1 of
           None \<Rightarrow> None
         | Some (t0, t1) \<Rightarrow>
             if t0 > t1 then None
             else Some \<lparr>x_p = x_p p0 + t1 * dx, y_p = y_p p0 + t1 * dy\<rparr>)"

section \<open>The Runge-Kutta scheme in the words of the specification\<close>

text \<open>
  Vector operations, the Lorentz acceleration \<open>a(v) = (q/m) (v \<times> B)\<close> and the four
  stages \<open>k1 .. k4\<close> of the scheme as the specification writes them; the source has no
  vector operations and computes component by component.
\<close>

definition vadd :: "Vector3 \<Rightarrow> Vector3 \<Rightarrow> Vector3" where
  "vadd a b = \<lparr>x = x a + x b, y = y a + y b, z = z a + z b\<rparr>"

definition smult :: "real \<Rightarrow> Vector3 \<Rightarrow> Vector3" where
  "smult k a = \<lparr>x = k * x a, y = k * y a, z = k * z a\<rparr>"

definition cross :: "Vector3 \<Rightarrow> Vector3 \<Rightarrow> Vector3" where
  "cross a b =
     \<lparr>x = y a * z b - z a * y b, y = z a * x b - x a * z b, z = x a * y b - y a * x b\<rparr>"

definition dot :: "Vector3 \<Rightarrow> Vector3 \<Rightarrow> real" where
  "dot a b = x a * x b + y a * y b + z a * z b"

definition lorentz :: "SimulationParams \<Rightarrow> Vector3 \<Rightarrow> Vector3" where
  "lorentz ps v = smult (charge ps / mass ps) (cross v (bField ps))"

definition spec_v2 :: "SimulationParams \<Rightarrow> Vector3 \<Rightarrow> Vector3" where
  "spec_v2 ps v = vadd v (smult (1/2) (smult 0.05 (lorentz ps v)))"

definition spec_v3 :: "SimulationParams \<Rightarrow> Vector3 \<Rightarrow> Vector3" where
  "spec_v3 ps v = vadd v (smult (1/2) (smult 0.05 (lorentz ps (spec_v2 ps v))))"

definition spec_v4 :: "SimulationParams \<Rightarrow> Vector3 \<Rightarrow> Vector3" where
  "spec_v4 ps v = vadd v (smult 0.05 (lorentz ps (spec_v3 ps v)))"

definition spec_k1v :: "SimulationParams \<Rightarrow> Vector3 \<Rightarrow> Vector3" where
  "spec_k1v ps v = smult 0.05 (lorentz ps v)"

definition spec_k2v :: "SimulationParams \<Rightarrow> Vector3 \<Rightarrow> Vector3" where
  "spec_k2v ps v = smult 0.05 (lorentz ps (spec_v2 ps v))"

definition spec_k3v :: "SimulationParams \<Rightarrow> Vector3 \<Rightarrow> Vector3" where
  "spec_k3v ps v = smult 0.05 (lorentz ps (spec_v3 ps v))"

definition spec_k4v :: "SimulationParams \<Rightarrow> Vector3 \<Rightarrow> Vector3" where
  "spec_k4v ps v = smult 0.05 (lorentz ps (spec_v4 ps v))"

definition spec_k1r :: "SimulationParams \<Rightarrow> Vector3 \<Rightarrow> Vector3" where
  "spec_k1r ps v = smult 0.05 v"

definition spec_k2r :: "SimulationParams \<Rightarrow> Vector3 \<Rightarrow> Vector3" where
  "spec_k2r ps v = smult 0.05 (spec_v2 ps v)"

definition spec_k3r :: "SimulationParams \<Rightarrow> Vector3 \<Rightarrow> Vector3" where
  "spec_k3r ps v = smult 0.05 (spec_v3 ps v)"

definition spec_k4r :: "SimulationParams \<Rightarrow> Vector3 \<Rightarrow> Vector3" where
  "spec_k4r ps v = smult 0.05 (spec_v4 ps v)"

definition rk4_combine :: "Vector3 \<Rightarrow> Vector3 \<Rightarrow> Vector3 \<Rightarrow> Vector3 \<Rightarrow> Vector3 \<Rightarrow> Vector3" where
  "rk4_combine u k1 k2 k3 k4 =
     vadd u (smult (1/6) (vadd k1 (vadd (smult 2 k2) (vadd (smult 2 k3) k4))))"

text \<open>
  No force acts when the field or the charge is zero. At a constant velocity the four
  position increments \<open>k1r .. k4r\<close> of a step are all \<open>k = velocity * DT\<close>, and
  \<open>straight_increment\<close> is what the step adds to the position,
  \<open>(k + 2 k + 2 k + k) / 6\<close>, with the operations in the order of the source.
  \<open>produced ps st k\<close> is the point
  that step number \<open>k\<close> produces, the steps being counted from 0: the position after
  the call of \<open>stepPhysics\<close> on the state reached by \<open>k\<close> calls.
\<close>

definition force_free :: "SimulationParams \<Rightarrow> bool" where
  "force_free ps \<longleftrightarrow> bField ps = \<lparr>x = 0, y = 0, z = 0\<rparr> \<or> charge ps = 0"

definition straight_increment :: "Vector3 \<Rightarrow> Vector3" where
  "straight_increment v =
     \<lparr>x = (x v * DT + 2 * (x v * DT) + 2 * (x v * DT) + x v * DT) / 6,
      y = (y v * DT + 2 * (y v * DT) + 2 * (y v * DT) + y v * DT) / 6,
      z = (z v * DT + 2 * (z v * DT) + 2 * (z v * DT) + z v * DT) / 6\<rparr>"

definition produced :: "SimulationParams \<Rightarrow> SimulationState \<Rightarrow> nat \<Rightarrow> Vector3" where
  "produced ps st k = position (snd (stepPhysics ps (run_steps k ps st)))"

section \<open>The projection in the words of the specification\<close>

definition yaw_rotate :: "real \<Rightarrow> Vector3 \<Rightarrow> Vector3" where
  "yaw_rotate a p = \<lparr>x = x p * cos a - y p * sin a, y = x p * sin a + y p * cos a, z = z p\<rparr>"

definition pitch_rotate :: "real \<Rightarrow> Vector3 \<Rightarrow> Vector3" where
  "pitch_rotate a p = \<lparr>x = x p, y = y p * cos a - z p * sin a, z = y p * sin a + z p * cos a\<rparr>"

definition view_point :: "CameraState \<Rightarrow> Vector3 \<Rightarrow> Vector3" where
  "view_point camera p = pitch_rotate (pitch camera) (yaw_rotate (yaw camera) p)"

definition view_depth :: "CameraState \<Rightarrow> Vector3 \<Rightarrow> real" where
  "view_depth camera p = 400 + y (view_point camera p)"

definition spec_scale :: "CameraState \<Rightarrow> Vector3 \<Rightarrow> real" where
  "spec_scale camera p = (600 / max 1 (view_depth camera p)) * zoom camera"

definition spec_project :: "CameraState \<Rightarrow> Vector3 \<Rightarrow> real \<Rightarrow> real \<Rightarrow> Projected" where
  "spec_project camera p viewportWidth viewportHeight =
     \<lparr>x_p = x (view_point camera p) * spec_scale camera p + viewportWidth / 2 - 100,
      y_p = - z (view_point camera p) * spec_scale camera p + viewportHeight / 2,
      scale = spec_scale camera p\<rparr>"

text \<open>The offsets of a projected point from the centre of the viewport.\<close>

definition offset_x :: "CameraState \<Rightarrow> Vector3 \<Rightarrow> real \<Rightarrow> real \<Rightarrow> real" where
  "offset_x camera p width height = x_p (project camera p width height) - width / 2"

definition offset_y :: "CameraState \<Rightarrow> Vector3 \<Rightarrow> real \<Rightarrow> real \<Rightarrow> real" where
  "offset_y camera p width height = y_p (project camera p width height) - height / 2"

section \<open>Liang-Barsky clipping in the words of the specification\<close>

text \<open>
  An edge is a pair \<open>(p, q)\<close>: the point at parameter \<open>t\<close> is on the inner side of the
  edge when \<open>p * t \<le> q\<close>. The edge is parallel to the line when \<open>p = 0\<close>, and the line
  is then outside when \<open>q < 0\<close>. The parameter interval starts as \<open>[0, 1]\<close>; \<open>t0\<close> is
  raised to every entry parameter (\<open>p < 0\<close>) and \<open>t1\<close> lowered to every exit parameter
  (\<open>p > 0\<close>).
\<close>

definition degenerate_outside :: "(real \<times> real) list \<Rightarrow> bool" where
  "degenerate_outside es = list_ex (\<lambda>(p, q). p = 0 \<and> q < 0) es"

definition entry_params :: "(real \<times> real) list \<Rightarrow> real list" where
  "entry_params es = map (\<lambda>(p, q). q / p) (filter (\<lambda>(p, q). p < 0) es)"

definition exit_params :: "(real \<times> real) list \<Rightarrow> real list" where
  "exit_params es = map (\<lambda>(p, q). q / p) (filter (\<lambda>(p, q). 0 < p) es)"

definition lb_t0 :: "(real \<times> real) list \<Rightarrow> real" where
  "lb_t0 es = foldr max (entry_params es) 0"

definition lb_t1 :: "(real \<times> real) list \<Rightarrow> real" where
  "lb_t1 es = foldr min (exit_params es) 1"

definition point_at :: "Projected \<Rightarrow> Projected \<Rightarrow> real \<Rightarrow> Point2" where
  "point_at p0 p1 t =
     \<lparr>x_p = x_p p0 + t * (x_p p1 - x_p p0), y_p = y_p p0 + t * (y_p p1 - y_p p0)\<rparr>"

definition in_inset_rect :: "real \<Rightarrow> real \<Rightarrow> Point2 \<Rightarrow> bool" where
  "in_inset_rect width height pt \<longleftrightarrow>
     25 \<le> x_p pt \<and> x_p pt \<le> width - 25 \<and> 25 \<le> y_p pt \<and> y_p pt \<le> height - 25"

section \<open>Speed\<close>





section \<open>Inputs used in the examples\<close>

definition edge_state :: SimulationState where
  "edge_state =
     \<lparr>position = \<lparr>x = 320, y = 0, z = 0\<rparr>, velocity_s = \<lparr>x = 5, y = 0, z = 2\<rparr>,
      history = [\<lparr>x = 320, y = 0, z = 0\<rparr>], time = 64\<rparr>"

definition halted_state :: SimulationState where
  "halted_state =
     \<lparr>position = \<lparr>x = 0, y = -321, z = 0\<rparr>, velocity_s = \<lparr>x = 5, y = 0, z = 2\<rparr>,
      history = [\<lparr>x = 0, y = -321, z = 0\<rparr>], time = 1\<rparr>"

definition coasting_params :: SimulationParams where
  "coasting_params =
     \<lparr>mass = 2, charge = 0, velocity = \<lparr>x = 0, y = 0, z = 2\<rparr>,
      bField = \<lparr>x = 0, y = 0, z = 2\<rparr>\<rparr>"

definition fast_params :: SimulationParams where
  "fast_params =
     \<lparr>mass = 2, charge = 0, velocity = \<lparr>x = 4000, y = 0, z = 0\<rparr>,
      bField = \<lparr>x = 0, y = 0, z = 2\<rparr>\<rparr>"

definition running_canvas :: Canvas where
  "running_canvas =
     (mount initial_params)
       \<lparr>stateRef := snd (stepPhysics initial_params (initial_state initial_params))\<rparr>"

definition slower_params :: SimulationParams where
  "slower_params = initial_params\<lparr>velocity := \<lparr>x = 1, y = 0, z = 0\<rparr>\<rparr>"

definition level_camera :: CameraState where
  "level_camera = \<lparr>pitch = 0, yaw = 0, zoom = 1\<rparr>"

definition sample_point :: Vector3 where
  "sample_point = \<lparr>x = 10, y = 0, z = 5\<rparr>"

definition heavier_params :: SimulationParams where
  "heavier_params = initial_params\<lparr>mass := 4, charge := - 1, bField := \<lparr>x = 1, y = 0, z = 0\<rparr>\<rparr>"

definition narrow_width :: real where
  "narrow_width = 100"



definition neutral_params :: SimulationParams where
  "neutral_params =
     \<lparr>mass = 2, charge = 0, velocity = \<lparr>x = 20, y = 0, z = 0\<rparr>,
      bField = \<lparr>x = 0, y = 0, z = 2\<rparr>\<rparr>"

section \<open>Helper lemmas\<close>

subsection \<open>One step of the integrator\<close>

lemma accel_lorentz: "accel ps v = lorentz ps v"
  by (simp add: accel_def lorentz_def smult_def cross_def)

lemma stepPhysics_logged_fst: "fst (stepPhysics_logged ps st) = stepPhysics ps st"
  by (simp add: stepPhysics_logged_def stepPhysics_def accel_logged_def Let_def)

lemmas spec_stage_defs =
  spec_v2_def spec_v3_def spec_v4_def spec_k1v_def spec_k2v_def spec_k3v_def spec_k4v_def
  spec_k1r_def spec_k2r_def spec_k3r_def spec_k4r_def rk4_combine_def

lemma stepPhysics_signal:
  "fst (stepPhysics ps st) = (if out_of_bounds (position st) then OnStop else Stepped)"
  by (simp add: stepPhysics_def out_of_bounds_def Let_def)

lemma stepPhysics_velocity:
  assumes "\<not> out_of_bounds (position st)"
  shows "velocity_s (snd (stepPhysics ps st)) =
           rk4_combine (velocity_s st) (spec_k1v ps (velocity_s st)) (spec_k2v ps (velocity_s st))
             (spec_k3v ps (velocity_s st)) (spec_k4v ps (velocity_s st))"
  using assms
  by (simp add: stepPhysics_def out_of_bounds_def Let_def accel_lorentz DT_def
      spec_stage_defs vadd_def smult_def mult.commute)

lemma stepPhysics_position:
  assumes "\<not> out_of_bounds (position st)"
  shows "position (snd (stepPhysics ps st)) =
           rk4_combine (position st) (spec_k1r ps (velocity_s st)) (spec_k2r ps (velocity_s st))
             (spec_k3r ps (velocity_s st)) (spec_k4r ps (velocity_s st))"
  using assms
  by (simp add: stepPhysics_def out_of_bounds_def Let_def accel_lorentz DT_def
      spec_stage_defs vadd_def smult_def field_simps)

lemma stepPhysics_time:
  assumes "\<not> out_of_bounds (position st)"
  shows "time (snd (stepPhysics ps st)) = time st + 0.05"
  using assms by (simp add: stepPhysics_def out_of_bounds_def Let_def DT_def)

lemma stepPhysics_history:
  assumes "\<not> out_of_bounds (position st)"
  shows "history (snd (stepPhysics ps st)) =
           push_history (history st) (position (snd (stepPhysics ps st)))"
  using assms by (simp add: stepPhysics_def out_of_bounds_def Let_def)

lemma stepPhysics_calls:
  assumes "\<not> out_of_bounds (position st)"
  shows "snd (stepPhysics_logged ps st) =
           [velocity_s st, spec_v2 ps (velocity_s st), spec_v3 ps (velocity_s st),
            spec_v4 ps (velocity_s st)]"
  using assms
  by (simp add: stepPhysics_logged_def accel_logged_def out_of_bounds_def Let_def
      accel_lorentz DT_def spec_stage_defs vadd_def smult_def mult.commute)

lemma last_push_history: "last (push_history h r) = r"
  by (cases h) (simp_all add: push_history_def Let_def TRAIL_LENGTH_def)

lemma stepPhysics_out_of_bounds:
  "out_of_bounds (position st) \<Longrightarrow> stepPhysics ps st = (OnStop, st)"
  by (simp add: stepPhysics_def out_of_bounds_def)

subsection \<open>Steps without force\<close>

lemma accel_force_free: "force_free ps \<Longrightarrow> accel ps v = \<lparr>x = 0, y = 0, z = 0\<rparr>"
  by (auto simp: force_free_def accel_def)

lemma step_force_free_velocity:
  "force_free ps \<Longrightarrow> velocity_s (snd (stepPhysics ps st)) = velocity_s st"
  by (simp add: stepPhysics_def Let_def accel_force_free)

lemma step_force_free_position:
  "force_free ps \<Longrightarrow> \<not> out_of_bounds (position st) \<Longrightarrow>
   position (snd (stepPhysics ps st)) = vadd (position st) (smult 0.05 (velocity_s st))"
  by (simp add: stepPhysics_def Let_def accel_force_free out_of_bounds_def DT_def vadd_def smult_def)

lemma step_force_free_increment:
  "force_free ps \<Longrightarrow> \<not> out_of_bounds (position st) \<Longrightarrow>
   position (snd (stepPhysics ps st)) = vadd (position st) (straight_increment (velocity_s st))"
  by (simp add: stepPhysics_def Let_def accel_force_free out_of_bounds_def
      straight_increment_def vadd_def)

lemma run_force_free_velocity:
  "force_free ps \<Longrightarrow> velocity_s (run_steps n ps st) = velocity_s st"
  by (induction n) (simp_all add: step_force_free_velocity)

lemma all_stepped_last:
  "all_stepped (Suc n) ps st \<Longrightarrow> \<not> out_of_bounds (position (run_steps n ps st))"
  by (simp add: stepPhysics_signal split: if_splits)

lemma run_force_free_position:
  "force_free ps \<Longrightarrow> all_stepped n ps st \<Longrightarrow>
   position (run_steps n ps st) = vadd (position st) (smult (real n * 0.05) (velocity_s st))"
proof (induction n)
  case 0
  then show ?case by (simp add: vadd_def smult_def)
next
  case (Suc n)
  have nb: "\<not> out_of_bounds (position (run_steps n ps st))"
    using Suc.prems(2) by (rule all_stepped_last)
  have "all_stepped n ps st" using Suc.prems(2) by simp
  then have IH: "position (run_steps n ps st) =
      vadd (position st) (smult (real n * 0.05) (velocity_s st))"
    using Suc.IH Suc.prems(1) by simp
  show ?case
    using step_force_free_position [OF Suc.prems(1) nb]
    by (simp add: IH run_force_free_velocity [OF Suc.prems(1)] vadd_def smult_def algebra_simps)
qed

subsection \<open>The history over repeated steps\<close>

lemma run_force_free_increments:
  "force_free ps \<Longrightarrow> all_stepped n ps st \<Longrightarrow>
   position (run_steps n ps st) =
     ((\<lambda>r. vadd r (straight_increment (velocity_s st))) ^^ n) (position st)"
proof (induction n)
  case 0
  then show ?case by simp
next
  case (Suc n)
  have nb: "\<not> out_of_bounds (position (run_steps n ps st))"
    using Suc.prems(2) by (rule all_stepped_last)
  have "all_stepped n ps st" using Suc.prems(2) by simp
  then have IH: "position (run_steps n ps st) =
      ((\<lambda>r. vadd r (straight_increment (velocity_s st))) ^^ n) (position st)"
    using Suc.IH Suc.prems(1) by simp
  show ?case
    using step_force_free_increment [OF Suc.prems(1) nb]
    by (simp add: IH run_force_free_velocity [OF Suc.prems(1)])
qed

lemma length_push_history:
  "length (push_history h r) = (if length h < TRAIL_LENGTH then Suc (length h) else length h)"
  by (simp add: push_history_def Let_def)

lemma step_history_length:
  "length (history st) \<le> TRAIL_LENGTH \<Longrightarrow>
   length (history (snd (stepPhysics ps st))) \<le> TRAIL_LENGTH"
  by (cases "out_of_bounds (position st)")
     (simp_all add: stepPhysics_out_of_bounds stepPhysics_history length_push_history)

lemma run_history_length:
  "length (history st) \<le> TRAIL_LENGTH \<Longrightarrow> length (history (run_steps n ps st)) \<le> TRAIL_LENGTH"
  by (induction n) (simp_all add: step_history_length)

lemma push_history_drop:
  assumes "length l \<le> TRAIL_LENGTH"
  shows "push_history l r = drop (Suc (length l) - TRAIL_LENGTH) (l @ [r])"
proof (cases "length l < TRAIL_LENGTH")
  case True
  then show ?thesis by (simp add: push_history_def Let_def)
next
  case False
  with assms have eq: "length l = TRAIL_LENGTH" by simp
  then have e: "Suc (length l) - TRAIL_LENGTH = Suc 0" by simp
  have "push_history l r = tl (l @ [r])"
    by (simp add: push_history_def Let_def eq)
  also have "\<dots> = drop (Suc 0) (l @ [r])"
    by (simp only: drop_Suc drop_0)
  finally show ?thesis by (simp only: e)
qed

lemma drop_drop_snoc:
  assumes "d \<le> length l"
  shows "drop k (drop d l @ [p]) = drop (k + d) (l @ [p])"
proof -
  have "drop d l @ [p] = drop d (l @ [p])"
    using assms by simp
  then show ?thesis
    by (simp only: drop_drop)
qed

lemma run_history:
  assumes "length (history st) \<le> TRAIL_LENGTH" and "all_stepped n ps st"
  shows "history (run_steps n ps st) =
     drop (length (history st) + n - TRAIL_LENGTH) (history st @ map (produced ps st) [0..<n])"
  using assms(2)
proof (induction n)
  case 0
  then show ?case using assms(1) by simp
next
  case (Suc n)
  let ?l = "history st @ map (produced ps st) [0..<n]"
  let ?d = "length (history st) + n - TRAIL_LENGTH"
  have nb: "\<not> out_of_bounds (position (run_steps n ps st))"
    using Suc.prems by (rule all_stepped_last)
  have IH: "history (run_steps n ps st) = drop ?d ?l"
    using Suc by simp
  have len: "length (drop ?d ?l) \<le> TRAIL_LENGTH"
    using run_history_length [OF assms(1), of n ps] by (simp add: IH)
  have "history (run_steps (Suc n) ps st) = push_history (drop ?d ?l) (produced ps st n)"
    using stepPhysics_history [OF nb, of ps] by (simp add: IH produced_def)
  also have "\<dots> = drop (Suc (length (drop ?d ?l)) - TRAIL_LENGTH) (drop ?d ?l @ [produced ps st n])"
    by (rule push_history_drop [OF len])
  also have "\<dots> = drop (Suc (length (drop ?d ?l)) - TRAIL_LENGTH + ?d) (?l @ [produced ps st n])"
    by (rule drop_drop_snoc) simp
  also have "Suc (length (drop ?d ?l)) - TRAIL_LENGTH + ?d = length (history st) + Suc n - TRAIL_LENGTH"
    by simp
  finally show ?case by simp
qed

lemma run_history_full:
  assumes "length (history st) \<le> TRAIL_LENGTH" and "all_stepped n ps st" and "TRAIL_LENGTH \<le> n"
  shows "history (run_steps n ps st) = map (produced ps st) [n - TRAIL_LENGTH..<n]"
proof -
  have "length (history st) + n - TRAIL_LENGTH = length (history st) + (n - TRAIL_LENGTH)"
    using assms(3) by simp
  then have "history (run_steps n ps st) =
      drop (length (history st) + (n - TRAIL_LENGTH)) (history st @ map (produced ps st) [0..<n])"
    using run_history [OF assms(1,2)] by simp
  also have "\<dots> = drop (n - TRAIL_LENGTH) (map (produced ps st) [0..<n])"
    by simp
  also have "\<dots> = map (produced ps st) [n - TRAIL_LENGTH..<n]"
    by (simp add: drop_map)
  finally show ?thesis .
qed

lemma coasting_all_stepped:
  "n \<le> 3100 \<Longrightarrow> all_stepped n coasting_params (initial_state coasting_params)"
proof (induction n)
  case 0
  then show ?case by simp
next
  case (Suc n)
  then have a: "all_stepped n coasting_params (initial_state coasting_params)" by simp
  have ff: "force_free coasting_params"
    by (simp add: force_free_def coasting_params_def)
  have "position (run_steps n coasting_params (initial_state coasting_params)) =
      \<lparr>x = 0, y = 0, z = real n / 10\<rparr>"
    using run_force_free_position [OF ff a]
    by (simp add: initial_state_def coasting_params_def vadd_def smult_def)
  moreover have "real n \<le> 3099" using Suc.prems by simp
  ultimately have "\<not> out_of_bounds (position (run_steps n coasting_params (initial_state coasting_params)))"
    by (simp add: out_of_bounds_def BOUNDS_LIMIT_def)
  then show ?case using a by (simp add: stepPhysics_signal)
qed

subsection \<open>Projection and zoom\<close>

lemma offset_x_affine:
  "offset_x (camera\<lparr>zoom := k\<rparr>) p width height =
     (x (view_point camera p) * (600 / max 1 (view_depth camera p))) * k - 100"
  by (simp add: offset_x_def project_def view_depth_def view_point_def
      pitch_rotate_def yaw_rotate_def Let_def)

lemma offset_y_linear:
  "offset_y (camera\<lparr>zoom := k\<rparr>) p width height =
     (- z (view_point camera p) * (600 / max 1 (view_depth camera p))) * k"
  unfolding offset_y_def project_def view_depth_def view_point_def
    pitch_rotate_def yaw_rotate_def Let_def
  by simp

lemma scaled_monotone:
  fixes a b :: real
  shows "(\<forall>k1 k2. k1 \<le> k2 \<longrightarrow> a * k1 + b \<le> a * k2 + b)
       \<or> (\<forall>k1 k2. k1 \<le> k2 \<longrightarrow> a * k2 + b \<le> a * k1 + b)"
proof (cases "0 \<le> a")
  case True
  then show ?thesis by (simp add: mult_left_mono)
next
  case False
  then have "a \<le> 0" by simp
  then show ?thesis by (simp add: mult_left_mono_neg)
qed

subsection \<open>The clipping loop\<close>

lemma foldr_max_acc: "foldr max vs (max v a) = max v (foldr max vs (a::real))"
  by (induction vs) (simp_all add: max.left_commute)

lemma foldr_min_acc: "foldr min vs (min v b) = min v (foldr min vs (b::real))"
  by (induction vs) (simp_all add: min.left_commute)

lemma foldr_max_ge: "(a::real) \<le> foldr max vs a"
  by (induction vs) (simp_all add: le_max_iff_disj)

lemma foldr_min_le: "foldr min vs (b::real) \<le> b"
  by (induction vs) (simp_all add: min_le_iff_disj)

lemma clip_loop_Some:
  "clip_loop es a b = Some (t0, t1) \<Longrightarrow>
   \<not> degenerate_outside es \<and> t0 = foldr max (entry_params es) a
     \<and> t1 = foldr min (exit_params es) b"
proof (induction es a b rule: clip_loop.induct)
  case (1 t0' t1')
  then show ?case
    by (simp add: degenerate_outside_def entry_params_def exit_params_def)
next
  case (2 p_i q_i rest a b)
  show ?case
  proof (cases "p_i = 0")
    case True
    with 2 show ?thesis
      by (simp add: degenerate_outside_def entry_params_def exit_params_def split: if_splits)
  next
    case False
    show ?thesis
    proof (cases "p_i < 0")
      case True
      with False 2 have nb: "\<not> q_i / p_i > b"
        and r: "clip_loop rest (if q_i / p_i > a then q_i / p_i else a) b = Some (t0, t1)"
        by (simp_all add: Let_def split: if_splits)
      have m: "(if q_i / p_i > a then q_i / p_i else a) = max (q_i / p_i) a"
        by (simp add: max_def)
      from "2.IH"(2) [OF False refl True nb r] True False show ?thesis
        by (simp add: m foldr_max_acc degenerate_outside_def entry_params_def exit_params_def)
    next
      case pos: False
      with False have gt: "0 < p_i" by simp
      with False pos 2 have nb: "\<not> q_i / p_i < a"
        and r: "clip_loop rest a (if q_i / p_i < b then q_i / p_i else b) = Some (t0, t1)"
        by (simp_all add: Let_def split: if_splits)
      have m: "(if q_i / p_i < b then q_i / p_i else b) = min (q_i / p_i) b"
        by (simp add: min_def)
      from "2.IH"(3) [OF False refl pos nb r] gt False show ?thesis
        by (simp add: m foldr_min_acc degenerate_outside_def entry_params_def exit_params_def)
    qed
  qed
qed

lemma clip_loop_None:
  "clip_loop es a b = None \<Longrightarrow>
   degenerate_outside es \<or> foldr max (entry_params es) a > foldr min (exit_params es) b"
proof (induction es a b rule: clip_loop.induct)
  case (1 t0' t1')
  then show ?case by simp
next
  case (2 p_i q_i rest a b)
  show ?case
  proof (cases "p_i = 0")
    case True
    with 2 show ?thesis
      by (auto simp: degenerate_outside_def entry_params_def exit_params_def split: if_splits)
  next
    case False
    show ?thesis
    proof (cases "p_i < 0")
      case True
      have e: "foldr max (entry_params ((p_i, q_i) # rest)) a =
          max (q_i / p_i) (foldr max (entry_params rest) a)"
        and x: "foldr min (exit_params ((p_i, q_i) # rest)) b = foldr min (exit_params rest) b"
        using True by (simp_all add: entry_params_def exit_params_def)
      show ?thesis
      proof (cases "q_i / p_i > b")
        case early: True
        have "foldr min (exit_params rest) b \<le> b" by (rule foldr_min_le)
        with early have "foldr min (exit_params rest) b < max (q_i / p_i) (foldr max (entry_params rest) a)"
          by (simp add: less_max_iff_disj)
        then show ?thesis by (simp add: e x)
      next
        case nb: False
        with True False 2 have r: "clip_loop rest (if q_i / p_i > a then q_i / p_i else a) b = None"
          by (simp add: Let_def split: if_splits)
        have m: "(if q_i / p_i > a then q_i / p_i else a) = max (q_i / p_i) a"
          by (simp add: max_def)
        from "2.IH"(2) [OF False refl True nb r] True False show ?thesis
          by (auto simp: m foldr_max_acc e x degenerate_outside_def)
      qed
    next
      case pos: False
      with False have gt: "0 < p_i" by simp
      have e: "foldr max (entry_params ((p_i, q_i) # rest)) a = foldr max (entry_params rest) a"
        and x: "foldr min (exit_params ((p_i, q_i) # rest)) b =
          min (q_i / p_i) (foldr min (exit_params rest) b)"
        using pos gt by (simp_all add: entry_params_def exit_params_def)
      show ?thesis
      proof (cases "q_i / p_i < a")
        case early: True
        have "a \<le> foldr max (entry_params rest) a" by (rule foldr_max_ge)
        with early have "min (q_i / p_i) (foldr min (exit_params rest) b) < foldr max (entry_params rest) a"
          by (simp add: min_less_iff_disj)
        then show ?thesis by (simp add: e x)
      next
        case nb: False
        with pos False 2 have r: "clip_loop rest a (if q_i / p_i < b then q_i / p_i else b) = None"
          by (simp add: Let_def split: if_splits)
        have m: "(if q_i / p_i < b then q_i / p_i else b) = min (q_i / p_i) b"
          by (simp add: min_def)
        from "2.IH"(3) [OF False refl pos nb r] gt False show ?thesis
          by (auto simp: m foldr_min_acc e x degenerate_outside_def)
      qed
    qed
  qed
qed

lemma edges_satisfied:
  "(\<forall>(p, q) \<in> set es. p * t \<le> q) \<and> a \<le> t \<and> t \<le> b \<longleftrightarrow>
   \<not> degenerate_outside es \<and> foldr max (entry_params es) a \<le> t
     \<and> t \<le> foldr min (exit_params es) b"
proof (induction es)
  case Nil
  then show ?case
    by (simp add: degenerate_outside_def entry_params_def exit_params_def)
next
  case (Cons e es)
  obtain p q where e: "e = (p, q)" by (cases e)
  consider (zero) "p = 0" | (neg) "p < 0" | (pos) "0 < p" by linarith
  then show ?case
  proof cases
    case zero
    have "(p * t \<le> q) = (\<not> q < 0)" using zero by auto
    with Cons zero show ?thesis
      by (auto simp: e degenerate_outside_def entry_params_def exit_params_def)
  next
    case neg
    have "(p * t \<le> q) = (q / p \<le> t)"
      using neg by (simp add: neg_divide_le_eq mult.commute)
    with Cons neg show ?thesis
      by (auto simp: e degenerate_outside_def entry_params_def exit_params_def)
  next
    case pos
    have "(p * t \<le> q) = (t \<le> q / p)"
      using pos by (simp add: pos_le_divide_eq mult.commute)
    with Cons pos show ?thesis
      by (auto simp: e degenerate_outside_def entry_params_def exit_params_def)
  qed
qed

lemma inside_label_edges:
  "in_inset_rect width height (point_at p0 p1 t) \<longleftrightarrow>
   (\<forall>(p, q) \<in> set (label_edges p0 p1 width height). p * t \<le> q)"
  by (auto simp: in_inset_rect_def point_at_def label_edges_def Let_def algebra_simps)

lemma getLabelPosition_eq:
  "getLabelPosition camera origin axisTip width height =
     (let p0 = project camera origin width height;
          p1 = project camera axisTip width height;
          es = label_edges p0 p1 width height
      in if degenerate_outside es \<or> lb_t1 es < lb_t0 es then None
         else Some (point_at p0 p1 (lb_t1 es)))"
proof -
  let ?p0 = "project camera origin width height"
  let ?p1 = "project camera axisTip width height"
  let ?es = "label_edges ?p0 ?p1 width height"
  show ?thesis
  proof (cases "clip_loop ?es 0 1")
    case None
    from clip_loop_None [OF None] show ?thesis
      by (simp add: getLabelPosition_def Let_def None lb_t0_def lb_t1_def)
  next
    case (Some r)
    obtain t0 t1 where r: "r = (t0, t1)" by (cases r)
    from clip_loop_Some [OF Some [unfolded r]] show ?thesis
      by (simp add: getLabelPosition_def Let_def Some r lb_t0_def lb_t1_def point_at_def)
  qed
qed

subsection \<open>The scheme on a velocity perpendicular to the field\<close>



















lemma dot_self_nonneg: "0 \<le> dot v v"
  by (simp add: dot_def)


section \<open>The Runge-Kutta step\<close>

text \<open>
  C1. For a state whose position is within the bounds and parameters with positive mass,
  \<open>stepPhysics\<close> completes, evaluates the acceleration \<open>a(v) = (q/m) (v \<times> B)\<close> exactly
  four times, at \<open>v\<close>, \<open>v + k1v/2\<close>, \<open>v + k2v/2\<close> and \<open>v + k3v\<close> in this order (with
  \<open>kiv = ai * dt\<close>, \<open>kir = vi * dt\<close>, \<open>dt = 0.05\<close>), and leaves
  \<open>v' = v + (k1v + 2 k2v + 2 k3v + k4v)/6\<close>, \<open>r' = r + (k1r + 2 k2r + 2 k3r + k4r)/6\<close> and
  \<open>time' = time + dt\<close> in the state.
\<close>

theorem stepPhysics_rk4:
  assumes "\<not> out_of_bounds (position st)" and "0 < mass ps"
  shows "fst (stepPhysics ps st) = Stepped
    \<and> fst (stepPhysics_logged ps st) = stepPhysics ps st
    \<and> length (snd (stepPhysics_logged ps st)) = 4
    \<and> snd (stepPhysics_logged ps st) =
        [velocity_s st,
         vadd (velocity_s st) (smult (1/2) (spec_k1v ps (velocity_s st))),
         vadd (velocity_s st) (smult (1/2) (spec_k2v ps (velocity_s st))),
         vadd (velocity_s st) (spec_k3v ps (velocity_s st))]
    \<and> velocity_s (snd (stepPhysics ps st)) =
        vadd (velocity_s st) (smult (1/6)
          (vadd (spec_k1v ps (velocity_s st)) (vadd (smult 2 (spec_k2v ps (velocity_s st)))
            (vadd (smult 2 (spec_k3v ps (velocity_s st))) (spec_k4v ps (velocity_s st))))))
    \<and> position (snd (stepPhysics ps st)) =
        vadd (position st) (smult (1/6)
          (vadd (spec_k1r ps (velocity_s st)) (vadd (smult 2 (spec_k2r ps (velocity_s st)))
            (vadd (smult 2 (spec_k3r ps (velocity_s st))) (spec_k4r ps (velocity_s st))))))
    \<and> time (snd (stepPhysics ps st)) = time st + 0.05"
proof -
  have calls: "snd (stepPhysics_logged ps st) =
      [velocity_s st,
       vadd (velocity_s st) (smult (1/2) (spec_k1v ps (velocity_s st))),
       vadd (velocity_s st) (smult (1/2) (spec_k2v ps (velocity_s st))),
       vadd (velocity_s st) (spec_k3v ps (velocity_s st))]"
    using stepPhysics_calls [OF assms(1), of ps]
    by (simp add: spec_v2_def spec_v3_def spec_v4_def spec_k1v_def spec_k2v_def spec_k3v_def)
  have len: "length (snd (stepPhysics_logged ps st)) = 4"
    by (simp add: calls)
  show ?thesis
    using assms(1) calls len stepPhysics_velocity [OF assms(1), of ps]
      stepPhysics_position [OF assms(1), of ps] stepPhysics_time [OF assms(1), of ps]
    by (simp add: stepPhysics_signal stepPhysics_logged_fst rk4_combine_def)
qed

theorem stepPhysics_rk4_witness:
  "\<not> out_of_bounds (position (initial_state initial_params)) \<and> 0 < mass initial_params
   \<and> fst (stepPhysics initial_params (initial_state initial_params)) = Stepped
   \<and> snd (stepPhysics_logged initial_params (initial_state initial_params)) =
        [\<lparr>x = 5, y = 0, z = 2\<rparr>, \<lparr>x = 5, y = - (1 / 8), z = 2\<rparr>,
         \<lparr>x = 1599 / 320, y = - (1 / 8), z = 2\<rparr>,
         \<lparr>x = 799 / 160, y = - (1599 / 6400), z = 2\<rparr>]
   \<and> velocity_s (snd (stepPhysics initial_params (initial_state initial_params))) =
        \<lparr>x = 3835201 / 768000, y = - (2399 / 9600), z = 2\<rparr>
   \<and> position (snd (stepPhysics initial_params (initial_state initial_params))) =
        \<lparr>x = 2399 / 9600, y = - (4799 / 768000), z = 1 / 10\<rparr>
   \<and> time (snd (stepPhysics initial_params (initial_state initial_params))) = 1 / 20"
proof -
  have h1: "\<not> out_of_bounds (position (initial_state initial_params))"
    by (simp add: out_of_bounds_def initial_state_def BOUNDS_LIMIT_def)
  have h2: "0 < mass initial_params"
    by (simp add: initial_params_def)
  show ?thesis
    using h1 h2 stepPhysics_rk4 [OF h1 h2]
    by (simp add: initial_state_def initial_params_def spec_k1v_def spec_k2v_def spec_k3v_def
        spec_k4v_def spec_k1r_def spec_k2r_def spec_k3r_def spec_k4r_def spec_v2_def spec_v3_def
        spec_v4_def lorentz_def cross_def smult_def vadd_def)
qed

section \<open>Bounds halt\<close>

text \<open>
  C2. When some component of the position has absolute value above 320, \<open>stepPhysics\<close>
  calls \<open>onStop\<close> (the halt signal, an outcome distinct from a completed step) and the
  state, with its position, velocity, history and time, is the one it was called on.
\<close>

theorem stepPhysics_halt:
  assumes "\<bar>x (position st)\<bar> > 320 \<or> \<bar>y (position st)\<bar> > 320 \<or> \<bar>z (position st)\<bar> > 320"
  shows "stepPhysics ps st = (OnStop, st)
    \<and> position (snd (stepPhysics ps st)) = position st
    \<and> velocity_s (snd (stepPhysics ps st)) = velocity_s st
    \<and> history (snd (stepPhysics ps st)) = history st
    \<and> time (snd (stepPhysics ps st)) = time st"
  using assms by (simp add: stepPhysics_def BOUNDS_LIMIT_def)

theorem stepPhysics_halt_witness:
  "(\<bar>x (position halted_state)\<bar> > 320 \<or> \<bar>y (position halted_state)\<bar> > 320
      \<or> \<bar>z (position halted_state)\<bar> > 320)
   \<and> stepPhysics initial_params halted_state = (OnStop, halted_state)"
proof -
  have h: "\<bar>x (position halted_state)\<bar> > 320 \<or> \<bar>y (position halted_state)\<bar> > 320
      \<or> \<bar>z (position halted_state)\<bar> > 320"
    by (simp add: halted_state_def)
  show ?thesis
    using h stepPhysics_halt [OF h, of initial_params] by simp
qed

section \<open>Parameter changes and reset\<close>

text \<open>
  C3, as the code has it. When \<open>params\<close> changes, the effect compares the velocity with
  the one of the previous parameters. If it differs, only \<open>state.velocity\<close> is
  replaced by \<open>params.velocity\<close>: position, history and time stay. If it is the same
  (a change of mass, charge or field only), the state is untouched. The state is replaced
  wholesale with \<open>{origin, params.velocity, empty history, time 0}\<close> by
  \<open>resetSimulation\<close> and by the creation of the component, not by a change of velocity.
\<close>

theorem params_effect_velocity_only:
  "stateRef (params_effect params c) =
     (if velocity params = velocity (prevParamsRef c) then stateRef c
      else (stateRef c)\<lparr>velocity_s := velocity params\<rparr>)
   \<and> paramsRef (params_effect params c) = params
   \<and> prevParamsRef (params_effect params c) = params
   \<and> stateRef (resetSimulation params c) =
       \<lparr>position = \<lparr>x = 0, y = 0, z = 0\<rparr>, velocity_s = velocity params,
        history = [], time = 0\<rparr>
   \<and> stateRef (mount params) =
       \<lparr>position = \<lparr>x = 0, y = 0, z = 0\<rparr>, velocity_s = velocity params,
        history = [], time = 0\<rparr>"
proof -
  have "velocity params = velocity (prevParamsRef c) \<longleftrightarrow>
      \<not> (x (velocity (prevParamsRef c)) \<noteq> x (velocity params)
        \<or> y (velocity (prevParamsRef c)) \<noteq> y (velocity params)
        \<or> z (velocity (prevParamsRef c)) \<noteq> z (velocity params))"
    by (cases "velocity params"; cases "velocity (prevParamsRef c)") auto
  then show ?thesis
    by (simp add: params_effect_def resetSimulation_def mount_def initial_state_def Let_def)
qed

theorem params_effect_velocity_only_witness:
  "velocity slower_params \<noteq> velocity (prevParamsRef running_canvas)
   \<and> stateRef (params_effect slower_params running_canvas) =
       (stateRef running_canvas)\<lparr>velocity_s := \<lparr>x = 1, y = 0, z = 0\<rparr>\<rparr>
   \<and> velocity heavier_params = velocity (prevParamsRef running_canvas)
   \<and> heavier_params \<noteq> prevParamsRef running_canvas
   \<and> stateRef (params_effect heavier_params running_canvas) = stateRef running_canvas
   \<and> paramsRef (params_effect heavier_params running_canvas) = heavier_params"
  using params_effect_velocity_only [of slower_params running_canvas]
    params_effect_velocity_only [of heavier_params running_canvas]
  by (simp add: slower_params_def heavier_params_def running_canvas_def mount_def
      initial_params_def)

theorem params_effect_no_reset_counterexample:
  "velocity slower_params \<noteq> velocity (prevParamsRef running_canvas)
   \<and> mass slower_params = mass (prevParamsRef running_canvas)
   \<and> charge slower_params = charge (prevParamsRef running_canvas)
   \<and> bField slower_params = bField (prevParamsRef running_canvas)
   \<and> stateRef (params_effect slower_params running_canvas) =
       \<lparr>position = \<lparr>x = 2399 / 9600, y = - (4799 / 768000), z = 1 / 10\<rparr>,
        velocity_s = \<lparr>x = 1, y = 0, z = 0\<rparr>,
        history = [\<lparr>x = 2399 / 9600, y = - (4799 / 768000), z = 1 / 10\<rparr>],
        time = 1 / 20\<rparr>
   \<and> stateRef (resetSimulation slower_params running_canvas) =
       \<lparr>position = \<lparr>x = 0, y = 0, z = 0\<rparr>, velocity_s = \<lparr>x = 1, y = 0, z = 0\<rparr>,
        history = [], time = 0\<rparr>
   \<and> stateRef (params_effect slower_params running_canvas) \<noteq>
       stateRef (resetSimulation slower_params running_canvas)"
  by (simp add: params_effect_def resetSimulation_def running_canvas_def slower_params_def
      mount_def initial_state_def initial_params_def stepPhysics_def accel_def Let_def DT_def
      BOUNDS_LIMIT_def push_history_def TRAIL_LENGTH_def)

section \<open>The bounded history\<close>

text \<open>
  C4. \<open>history.length \<le> 3000\<close> is kept by every operation: a call of \<open>stepPhysics\<close>
  (whether it completes or signals \<open>onStop\<close>), the parameter effect, reset, and the
  creation of the state. A completed step appends the new position and, when that makes
  3001 entries, drops the oldest one. After more than 3000 completed steps the history has
  exactly 3000 entries, and its oldest entry is the point produced by step number
  \<open>n - 3000\<close>, the steps being counted from 0 (the history holds the points of steps
  \<open>n - 3000, ..., n - 1\<close> in this order).
\<close>

theorem history_fifo:
  assumes "length (history st) \<le> 3000"
  shows "length (history (snd (stepPhysics ps st))) \<le> 3000
    \<and> length (history (stateRef (params_effect ps (c\<lparr>stateRef := st\<rparr>)))) \<le> 3000
    \<and> length (history (stateRef (resetSimulation ps c))) \<le> 3000
    \<and> length (history (stateRef (mount ps))) \<le> 3000
    \<and> (fst (stepPhysics ps st) = Stepped \<longrightarrow>
         history (snd (stepPhysics ps st)) =
           (if length (history st) < 3000
            then history st @ [position (snd (stepPhysics ps st))]
            else tl (history st) @ [position (snd (stepPhysics ps st))]))
    \<and> (3000 < n \<and> all_stepped n ps st \<longrightarrow>
         length (history (run_steps n ps st)) = 3000
         \<and> hd (history (run_steps n ps st)) = produced ps st (n - 3000)
         \<and> history (run_steps n ps st) = map (produced ps st) [n - 3000..<n])"
proof -
  have a: "length (history st) \<le> TRAIL_LENGTH"
    using assms by (simp add: TRAIL_LENGTH_def)
  have 1: "length (history (snd (stepPhysics ps st))) \<le> 3000"
    using step_history_length [OF a, of ps] by (simp add: TRAIL_LENGTH_def)
  have 2: "length (history (stateRef (params_effect ps (c\<lparr>stateRef := st\<rparr>)))) \<le> 3000"
    using assms by (simp add: params_effect_def Let_def)
  have 3: "length (history (stateRef (resetSimulation ps c))) \<le> 3000"
    by (simp add: resetSimulation_def)
  have 4: "length (history (stateRef (mount ps))) \<le> 3000"
    by (simp add: mount_def initial_state_def)
  have 5: "history (snd (stepPhysics ps st)) =
           (if length (history st) < 3000
            then history st @ [position (snd (stepPhysics ps st))]
            else tl (history st) @ [position (snd (stepPhysics ps st))])"
    if "fst (stepPhysics ps st) = Stepped"
  proof -
    have nb: "\<not> out_of_bounds (position st)"
      using that by (simp add: stepPhysics_signal split: if_splits)
    show ?thesis
    proof (cases "history st")
      case Nil
      then show ?thesis
        using stepPhysics_history [OF nb, of ps]
        by (simp add: push_history_def Let_def TRAIL_LENGTH_def)
    next
      case (Cons p l)
      then show ?thesis
        using stepPhysics_history [OF nb, of ps] assms
        by (simp add: push_history_def Let_def TRAIL_LENGTH_def)
    qed
  qed
  have 6: "length (history (run_steps n ps st)) = 3000
         \<and> hd (history (run_steps n ps st)) = produced ps st (n - 3000)
         \<and> history (run_steps n ps st) = map (produced ps st) [n - 3000..<n]"
    if "3000 < n" and "all_stepped n ps st"
  proof -
    have h: "history (run_steps n ps st) = map (produced ps st) [n - 3000..<n]"
      using run_history_full [OF a that(2)] that(1) by (simp add: TRAIL_LENGTH_def)
    have l: "length (history (run_steps n ps st)) = 3000"
      using that(1) by (simp add: h)
    have "[n - 3000..<n] = (n - 3000) # [Suc (n - 3000)..<n]"
      using that(1) by (intro upt_conv_Cons) simp
    then have "hd (history (run_steps n ps st)) = produced ps st (n - 3000)"
      by (simp add: h)
    with h l show ?thesis by simp
  qed
  from 1 2 3 4 5 6 show ?thesis by blast
qed


theorem history_fifo_witness:
  "length (history (initial_state coasting_params)) \<le> 3000
   \<and> fst (stepPhysics coasting_params (initial_state coasting_params)) = Stepped
   \<and> history (snd (stepPhysics coasting_params (initial_state coasting_params))) =
       [\<lparr>x = 0, y = 0, z = 1 / 10\<rparr>]
   \<and> (3000::nat) < 3001
   \<and> all_stepped 3001 coasting_params (initial_state coasting_params)
   \<and> length (history (run_steps 3001 coasting_params (initial_state coasting_params))) = 3000
   \<and> hd (history (run_steps 3001 coasting_params (initial_state coasting_params))) =
       \<lparr>x = 0, y = 0, z = 1 / 5\<rparr>"
proof -
  let ?s = "initial_state coasting_params"
  have h: "length (history ?s) \<le> 3000"
    by (simp add: initial_state_def)
  have lt: "(3000::nat) < 3001"
    by simp
  have a: "all_stepped 3001 coasting_params ?s"
    by (rule coasting_all_stepped) simp
  have s1: "stepPhysics coasting_params ?s =
      (Stepped, \<lparr>position = \<lparr>x = 0, y = 0, z = 1 / 10\<rparr>, velocity_s = \<lparr>x = 0, y = 0, z = 2\<rparr>,
                 history = [\<lparr>x = 0, y = 0, z = 1 / 10\<rparr>], time = 1 / 20\<rparr>)"
    by (simp add: stepPhysics_def initial_state_def coasting_params_def accel_def Let_def
        DT_def BOUNDS_LIMIT_def push_history_def TRAIL_LENGTH_def)
  have f: "fst (stepPhysics coasting_params ?s) = Stepped"
    by (simp add: s1)
  have p: "produced coasting_params ?s (3001 - 3000) = \<lparr>x = 0, y = 0, z = 1 / 5\<rparr>"
    by (simp add: produced_def s1)
       (simp add: stepPhysics_def accel_def coasting_params_def Let_def DT_def BOUNDS_LIMIT_def)
  note T = history_fifo [OF h, of coasting_params "mount coasting_params" 3001]
  from T f have "history (snd (stepPhysics coasting_params ?s)) =
      (if length (history ?s) < 3000
       then history ?s @ [position (snd (stepPhysics coasting_params ?s))]
       else tl (history ?s) @ [position (snd (stepPhysics coasting_params ?s))])"
    by blast
  then have h1: "history (snd (stepPhysics coasting_params ?s)) = [\<lparr>x = 0, y = 0, z = 1 / 10\<rparr>]"
    by (simp add: s1)
  from T lt a have l: "length (history (run_steps 3001 coasting_params ?s)) = 3000"
    by blast
  from T lt a have "hd (history (run_steps 3001 coasting_params ?s)) =
      produced coasting_params ?s (3001 - 3000)"
    by blast
  then have o: "hd (history (run_steps 3001 coasting_params ?s)) = \<lparr>x = 0, y = 0, z = 1 / 5\<rparr>"
    by (simp only: p)
  from h f h1 lt a l o show ?thesis
    by blast
qed

section \<open>The projection formula\<close>

text \<open>
  C5. For every point, camera and viewport, \<open>project\<close> rotates by the yaw, then by the
  pitch, takes \<open>depth = 400 + viewY\<close> and \<open>scale = (600 / max(1, depth)) * zoom\<close>, and
  returns \<open>screenX = viewX * scale + viewportWidth/2 - 100\<close> and
  \<open>screenY = - viewZ * scale + viewportHeight/2\<close>; the divisor \<open>max(1, depth)\<close> is at
  least 1.
\<close>

theorem project_formula:
  "project camera p width height = spec_project camera p width height
   \<and> view_point camera p = pitch_rotate (pitch camera) (yaw_rotate (yaw camera) p)
   \<and> view_depth camera p = 400 + y (view_point camera p)
   \<and> scale (project camera p width height) = (600 / max 1 (view_depth camera p)) * zoom camera
   \<and> x_p (project camera p width height) =
       x (view_point camera p) * scale (project camera p width height) + width / 2 - 100
   \<and> y_p (project camera p width height) =
       - z (view_point camera p) * scale (project camera p width height) + height / 2
   \<and> 1 \<le> max 1 (view_depth camera p)"
  unfolding project_def spec_project_def spec_scale_def view_depth_def view_point_def
    pitch_rotate_def yaw_rotate_def Let_def
  by simp

section \<open>Motion without force\<close>

text \<open>
  C6, as the code has it. With zero field or zero charge (and positive mass) every call
  of \<open>stepPhysics\<close> leaves the velocity unchanged. A call that completes adds the same
  displacement \<open>(k + 2 k + 2 k + k) / 6\<close>, \<open>k = velocity * dt\<close>, to the position, so after
  \<open>n\<close> calls none of which signalled \<open>onStop\<close> the position is the starting position
  plus \<open>n\<close> such displacements, added one after the other. A call that finds the position
  out of bounds leaves the position where it is, so \<open>position = velocity * (n * 0.05)\<close>
  does not hold for every number of calls: with charge 0 and velocity \<open>(4000, 0, 0)\<close>
  the third call halts at \<open>x = 400\<close>.
\<close>

theorem zero_force_straight_line:
  assumes "bField ps = \<lparr>x = 0, y = 0, z = 0\<rparr> \<or> charge ps = 0" and "0 < mass ps"
  shows "velocity_s (snd (stepPhysics ps st)) = velocity_s st
    \<and> velocity_s (run_steps n ps st) = velocity_s st
    \<and> (fst (stepPhysics ps st) = Stepped \<longrightarrow>
         position (snd (stepPhysics ps st)) =
           vadd (position st) (straight_increment (velocity_s st)))
    \<and> (fst (stepPhysics ps st) = OnStop \<longrightarrow>
         position (snd (stepPhysics ps st)) = position st)
    \<and> (all_stepped n ps st \<longrightarrow>
         position (run_steps n ps st) =
           ((\<lambda>r. vadd r (straight_increment (velocity_s st))) ^^ n) (position st))"
proof -
  have ff: "force_free ps"
    using assms(1) by (simp add: force_free_def)
  have moved: "position (snd (stepPhysics ps st)) =
      vadd (position st) (straight_increment (velocity_s st))"
    if "fst (stepPhysics ps st) = Stepped"
  proof -
    have "\<not> out_of_bounds (position st)"
      using that by (simp add: stepPhysics_signal split: if_splits)
    then show ?thesis by (rule step_force_free_increment [OF ff])
  qed
  have halted: "position (snd (stepPhysics ps st)) = position st"
    if "fst (stepPhysics ps st) = OnStop"
  proof -
    have "out_of_bounds (position st)"
      using that by (simp add: stepPhysics_signal split: if_splits)
    then show ?thesis by (simp add: stepPhysics_out_of_bounds)
  qed
  have many: "position (run_steps n ps st) =
      ((\<lambda>r. vadd r (straight_increment (velocity_s st))) ^^ n) (position st)"
    if "all_stepped n ps st"
    using that by (rule run_force_free_increments [OF ff])
  from moved halted many show ?thesis
    by (simp add: step_force_free_velocity [OF ff] run_force_free_velocity [OF ff])
qed

theorem zero_force_straight_line_witness:
  "(bField neutral_params = \<lparr>x = 0, y = 0, z = 0\<rparr> \<or> charge neutral_params = 0)
   \<and> 0 < mass neutral_params
   \<and> fst (stepPhysics neutral_params (initial_state neutral_params)) = Stepped
   \<and> straight_increment (velocity_s (initial_state neutral_params)) = \<lparr>x = 1, y = 0, z = 0\<rparr>
   \<and> position (snd (stepPhysics neutral_params (initial_state neutral_params))) =
       \<lparr>x = 1, y = 0, z = 0\<rparr>
   \<and> all_stepped 3 neutral_params (initial_state neutral_params)
   \<and> velocity_s (run_steps 3 neutral_params (initial_state neutral_params)) =
       \<lparr>x = 20, y = 0, z = 0\<rparr>
   \<and> position (run_steps 3 neutral_params (initial_state neutral_params)) =
       \<lparr>x = 3, y = 0, z = 0\<rparr>
   \<and> fst (stepPhysics neutral_params halted_state) = OnStop
   \<and> velocity_s (snd (stepPhysics neutral_params halted_state)) = \<lparr>x = 5, y = 0, z = 2\<rparr>
   \<and> position (snd (stepPhysics neutral_params halted_state)) = \<lparr>x = 0, y = - 321, z = 0\<rparr>"
proof -
  let ?s = "initial_state neutral_params"
  have h1: "bField neutral_params = \<lparr>x = 0, y = 0, z = 0\<rparr> \<or> charge neutral_params = 0"
    by (simp add: neutral_params_def)
  have h2: "0 < mass neutral_params"
    by (simp add: neutral_params_def)
  have v: "velocity_s ?s = \<lparr>x = 20, y = 0, z = 0\<rparr>"
    by (simp add: initial_state_def neutral_params_def)
  have o: "position ?s = \<lparr>x = 0, y = 0, z = 0\<rparr>"
    by (simp add: initial_state_def)
  have d: "straight_increment (velocity_s ?s) = \<lparr>x = 1, y = 0, z = 0\<rparr>"
    by (simp add: v straight_increment_def DT_def)
  have f: "fst (stepPhysics neutral_params ?s) = Stepped"
    by (simp add: stepPhysics_signal o out_of_bounds_def BOUNDS_LIMIT_def)
  have a: "all_stepped 3 neutral_params ?s"
    by (simp add: eval_nat_numeral stepPhysics_def initial_state_def neutral_params_def
        accel_def Let_def DT_def BOUNDS_LIMIT_def)
  have g: "fst (stepPhysics neutral_params halted_state) = OnStop"
    by (simp add: stepPhysics_signal halted_state_def out_of_bounds_def BOUNDS_LIMIT_def)
  note A = zero_force_straight_line [OF h1 h2, of ?s 3]
  note B = zero_force_straight_line [OF h1 h2, of halted_state 0]
  from A f have "position (snd (stepPhysics neutral_params ?s)) =
      vadd (position ?s) (straight_increment (velocity_s ?s))"
    by blast
  then have p1: "position (snd (stepPhysics neutral_params ?s)) = \<lparr>x = 1, y = 0, z = 0\<rparr>"
    by (simp add: d o vadd_def)
  from A have "velocity_s (run_steps 3 neutral_params ?s) = velocity_s ?s"
    by blast
  then have v3: "velocity_s (run_steps 3 neutral_params ?s) = \<lparr>x = 20, y = 0, z = 0\<rparr>"
    by (simp only: v)
  from A a have "position (run_steps 3 neutral_params ?s) =
      ((\<lambda>r. vadd r (straight_increment (velocity_s ?s))) ^^ 3) (position ?s)"
    by blast
  then have p3: "position (run_steps 3 neutral_params ?s) = \<lparr>x = 3, y = 0, z = 0\<rparr>"
    by (simp add: d o vadd_def eval_nat_numeral)
  from B have "velocity_s (snd (stepPhysics neutral_params halted_state)) = velocity_s halted_state"
    by blast
  then have hv: "velocity_s (snd (stepPhysics neutral_params halted_state)) = \<lparr>x = 5, y = 0, z = 2\<rparr>"
    by (simp add: halted_state_def)
  from B g have "position (snd (stepPhysics neutral_params halted_state)) = position halted_state"
    by blast
  then have hp: "position (snd (stepPhysics neutral_params halted_state)) = \<lparr>x = 0, y = - 321, z = 0\<rparr>"
    by (simp add: halted_state_def)
  from h1 h2 f d p1 a v3 p3 g hv hp show ?thesis by blast
qed

theorem zero_force_halt_counterexample:
  "charge fast_params = 0 \<and> 0 < mass fast_params
   \<and> position (initial_state fast_params) = \<lparr>x = 0, y = 0, z = 0\<rparr>
   \<and> velocity_s (initial_state fast_params) = \<lparr>x = 4000, y = 0, z = 0\<rparr>
   \<and> position (run_steps 2 fast_params (initial_state fast_params)) = \<lparr>x = 400, y = 0, z = 0\<rparr>
   \<and> stepPhysics fast_params (run_steps 2 fast_params (initial_state fast_params)) =
       (OnStop, run_steps 2 fast_params (initial_state fast_params))
   \<and> position (run_steps 3 fast_params (initial_state fast_params)) = \<lparr>x = 400, y = 0, z = 0\<rparr>
   \<and> smult (3 * 0.05) (velocity_s (initial_state fast_params)) = \<lparr>x = 600, y = 0, z = 0\<rparr>
   \<and> position (run_steps 3 fast_params (initial_state fast_params)) \<noteq>
       smult (3 * 0.05) (velocity_s (initial_state fast_params))"
  by (simp add: eval_nat_numeral stepPhysics_def initial_state_def fast_params_def accel_def
      Let_def DT_def BOUNDS_LIMIT_def push_history_def TRAIL_LENGTH_def smult_def)

section \<open>Speed in a perpendicular field\<close>




section \<open>Clipping the axis label\<close>

text \<open>
  C8. With \<open>p0\<close> and \<open>p1\<close> the projections of the origin and of the axis tip and the
  four edges of the rectangle inset by 25 pixels, \<open>getLabelPosition\<close> returns none
  exactly when the parameter interval is empty after all four edges (\<open>t0 > t1\<close>) or some
  edge is parallel to the line with the line outside of it. Otherwise it returns
  \<open>p0 + t1 * (p1 - p0)\<close>. That point lies in the inset rectangle, and no point of the
  segment from \<open>p0\<close> to \<open>p1\<close> that lies in the rectangle has a larger parameter: it
  is the point of the clipped segment closest to the axis tip.
\<close>

theorem getLabelPosition_clip:
  fixes camera :: CameraState and origin axisTip :: Vector3 and width height :: real
  defines "p0 \<equiv> project camera origin width height"
    and "p1 \<equiv> project camera axisTip width height"
  defines "es \<equiv> label_edges p0 p1 width height"
  shows "(getLabelPosition camera origin axisTip width height = None
           \<longleftrightarrow> lb_t0 es > lb_t1 es \<or> degenerate_outside es)
    \<and> (getLabelPosition camera origin axisTip width height \<noteq> None \<longrightarrow>
         getLabelPosition camera origin axisTip width height =
           Some \<lparr>x_p = x_p p0 + lb_t1 es * (x_p p1 - x_p p0),
                 y_p = y_p p0 + lb_t1 es * (y_p p1 - y_p p0)\<rparr>
         \<and> 0 \<le> lb_t1 es \<and> lb_t1 es \<le> 1
         \<and> in_inset_rect width height (point_at p0 p1 (lb_t1 es))
         \<and> (\<forall>t. 0 \<le> t \<and> t \<le> 1 \<and> in_inset_rect width height (point_at p0 p1 t)
               \<longrightarrow> t \<le> lb_t1 es))"
proof -
  have eq: "getLabelPosition camera origin axisTip width height =
      (if degenerate_outside es \<or> lb_t1 es < lb_t0 es then None
       else Some (point_at p0 p1 (lb_t1 es)))"
    by (simp add: getLabelPosition_eq Let_def p0_def p1_def es_def)
  have sat: "in_inset_rect width height (point_at p0 p1 t) \<and> 0 \<le> t \<and> t \<le> 1 \<longleftrightarrow>
      \<not> degenerate_outside es \<and> lb_t0 es \<le> t \<and> t \<le> lb_t1 es" for t
    using edges_satisfied [of es t 0 1]
    by (simp add: inside_label_edges es_def lb_t0_def lb_t1_def)
  have none: "getLabelPosition camera origin axisTip width height = None
      \<longleftrightarrow> lb_t0 es > lb_t1 es \<or> degenerate_outside es"
    by (auto simp: eq)
  have some: "getLabelPosition camera origin axisTip width height =
           Some \<lparr>x_p = x_p p0 + lb_t1 es * (x_p p1 - x_p p0),
                 y_p = y_p p0 + lb_t1 es * (y_p p1 - y_p p0)\<rparr>
         \<and> 0 \<le> lb_t1 es \<and> lb_t1 es \<le> 1
         \<and> in_inset_rect width height (point_at p0 p1 (lb_t1 es))
         \<and> (\<forall>t. 0 \<le> t \<and> t \<le> 1 \<and> in_inset_rect width height (point_at p0 p1 t)
               \<longrightarrow> t \<le> lb_t1 es)"
    if "getLabelPosition camera origin axisTip width height \<noteq> None"
  proof -
    from that none have nd: "\<not> degenerate_outside es" and le: "lb_t0 es \<le> lb_t1 es"
      by auto
    have z: "0 \<le> lb_t0 es"
      unfolding lb_t0_def by (rule foldr_max_ge)
    have o: "lb_t1 es \<le> 1"
      unfolding lb_t1_def by (rule foldr_min_le)
    have ins: "in_inset_rect width height (point_at p0 p1 (lb_t1 es))"
      using sat [of "lb_t1 es"] nd le by simp
    have mx: "t \<le> lb_t1 es"
      if "0 \<le> t \<and> t \<le> 1 \<and> in_inset_rect width height (point_at p0 p1 t)" for t
      using sat [of t] that by blast
    from nd le z o ins mx show ?thesis
      by (simp add: eq point_at_def)
  qed
  from none some show ?thesis by blast
qed

theorem getLabelPosition_clip_witness:
  "getLabelPosition level_camera \<lparr>x = 0, y = 0, z = 0\<rparr> \<lparr>x = AXIS_DRAW_EXTENT, y = 0, z = 0\<rparr> 800 600
     = Some \<lparr>x_p = 775, y_p = 300\<rparr>
   \<and> lb_t1 (label_edges (project level_camera \<lparr>x = 0, y = 0, z = 0\<rparr> 800 600)
        (project level_camera \<lparr>x = AXIS_DRAW_EXTENT, y = 0, z = 0\<rparr> 800 600) 800 600) = 19 / 6000
   \<and> in_inset_rect 800 600 \<lparr>x_p = 775, y_p = 300\<rparr>
   \<and> in_inset_rect 800 600 (point_at (project level_camera \<lparr>x = 0, y = 0, z = 0\<rparr> 800 600)
        (project level_camera \<lparr>x = AXIS_DRAW_EXTENT, y = 0, z = 0\<rparr> 800 600) (1 / 6000))
   \<and> (1 / 6000 :: real) \<le> 19 / 6000
   \<and> getLabelPosition level_camera \<lparr>x = 0, y = 0, z = 0\<rparr> \<lparr>x = 0, y = 0, z = AXIS_DRAW_EXTENT\<rparr>
       narrow_width 600 = None
   \<and> degenerate_outside (label_edges (project level_camera \<lparr>x = 0, y = 0, z = 0\<rparr> narrow_width 600)
        (project level_camera \<lparr>x = 0, y = 0, z = AXIS_DRAW_EXTENT\<rparr> narrow_width 600) narrow_width 600)"
proof -
  let ?o = "\<lparr>x = 0, y = 0, z = 0\<rparr>"
  let ?tx = "\<lparr>x = AXIS_DRAW_EXTENT, y = 0, z = 0\<rparr>"
  let ?tz = "\<lparr>x = 0, y = 0, z = AXIS_DRAW_EXTENT\<rparr>"
  have p0: "project level_camera ?o 800 600 = \<lparr>x_p = 300, y_p = 300, scale = 3 / 2\<rparr>"
    by (simp add: project_def level_camera_def Let_def)
  have p1: "project level_camera ?tx 800 600 = \<lparr>x_p = 150300, y_p = 300, scale = 3 / 2\<rparr>"
    by (simp add: project_def level_camera_def Let_def AXIS_DRAW_EXTENT_def)
  have es: "label_edges (project level_camera ?o 800 600) (project level_camera ?tx 800 600) 800 600
      = [(- 150000, 275), (150000, 475), (0, 275), (0, 275)]"
    by (simp add: p0 p1 label_edges_def Let_def)
  have t1: "lb_t1 (label_edges (project level_camera ?o 800 600)
      (project level_camera ?tx 800 600) 800 600) = 19 / 6000"
    by (simp add: es lb_t1_def exit_params_def)
  have t0: "lb_t0 (label_edges (project level_camera ?o 800 600)
      (project level_camera ?tx 800 600) 800 600) = 0"
    by (simp add: es lb_t0_def entry_params_def)
  have nd: "\<not> degenerate_outside (label_edges (project level_camera ?o 800 600)
      (project level_camera ?tx 800 600) 800 600)"
    by (simp add: es degenerate_outside_def)
  have q0: "project level_camera ?o narrow_width 600 = \<lparr>x_p = - 50, y_p = 300, scale = 3 / 2\<rparr>"
    by (simp add: project_def level_camera_def Let_def narrow_width_def)
  have q1: "project level_camera ?tz narrow_width 600 = \<lparr>x_p = - 50, y_p = - 149700, scale = 3 / 2\<rparr>"
    by (simp add: project_def level_camera_def Let_def AXIS_DRAW_EXTENT_def narrow_width_def)
  have dg: "degenerate_outside (label_edges (project level_camera ?o narrow_width 600)
      (project level_camera ?tz narrow_width 600) narrow_width 600)"
    unfolding q0 q1 by (simp add: label_edges_def Let_def degenerate_outside_def narrow_width_def)
  note A = getLabelPosition_clip [of level_camera ?o ?tx 800 600]
  note B = getLabelPosition_clip [of level_camera ?o ?tz narrow_width 600]
  from A have "getLabelPosition level_camera ?o ?tx 800 600 = None \<longleftrightarrow>
      lb_t0 (label_edges (project level_camera ?o 800 600)
         (project level_camera ?tx 800 600) 800 600)
       > lb_t1 (label_edges (project level_camera ?o 800 600)
         (project level_camera ?tx 800 600) 800 600)
      \<or> degenerate_outside (label_edges (project level_camera ?o 800 600)
         (project level_camera ?tx 800 600) 800 600)"
    by blast
  with nd have a1: "getLabelPosition level_camera ?o ?tx 800 600 \<noteq> None"
    by (simp only: t0 t1) simp
  with A have "getLabelPosition level_camera ?o ?tx 800 600 =
      Some \<lparr>x_p = x_p (project level_camera ?o 800 600) +
                  lb_t1 (label_edges (project level_camera ?o 800 600)
                    (project level_camera ?tx 800 600) 800 600) *
                  (x_p (project level_camera ?tx 800 600) - x_p (project level_camera ?o 800 600)),
             y_p = y_p (project level_camera ?o 800 600) +
                  lb_t1 (label_edges (project level_camera ?o 800 600)
                    (project level_camera ?tx 800 600) 800 600) *
                  (y_p (project level_camera ?tx 800 600) - y_p (project level_camera ?o 800 600))\<rparr>"
    by blast
  then have a2: "getLabelPosition level_camera ?o ?tx 800 600 = Some \<lparr>x_p = 775, y_p = 300\<rparr>"
    by (simp only: t1) (simp add: p0 p1)
  from A a1 have "in_inset_rect 800 600 (point_at (project level_camera ?o 800 600)
      (project level_camera ?tx 800 600)
      (lb_t1 (label_edges (project level_camera ?o 800 600)
         (project level_camera ?tx 800 600) 800 600)))"
    by blast
  then have a3: "in_inset_rect 800 600 \<lparr>x_p = 775, y_p = 300\<rparr>"
    by (simp only: t1) (simp add: p0 p1 point_at_def)
  from B dg have b1: "getLabelPosition level_camera ?o ?tz narrow_width 600 = None"
    by blast
  have i: "in_inset_rect 800 600 (point_at (project level_camera ?o 800 600)
      (project level_camera ?tx 800 600) (1 / 6000))"
    by (simp add: p0 p1 point_at_def in_inset_rect_def)
  from A a1 have "\<forall>t. 0 \<le> t \<and> t \<le> 1 \<and> in_inset_rect 800 600
        (point_at (project level_camera ?o 800 600) (project level_camera ?tx 800 600) t)
      \<longrightarrow> t \<le> lb_t1 (label_edges (project level_camera ?o 800 600)
        (project level_camera ?tx 800 600) 800 600)"
    by blast
  then have "0 \<le> (1 / 6000 :: real) \<and> (1 / 6000 :: real) \<le> 1 \<and> in_inset_rect 800 600
        (point_at (project level_camera ?o 800 600) (project level_camera ?tx 800 600) (1 / 6000))
      \<longrightarrow> 1 / 6000 \<le> lb_t1 (label_edges (project level_camera ?o 800 600)
        (project level_camera ?tx 800 600) 800 600)"
    by (rule spec)
  with i have "(1 / 6000 :: real) \<le> lb_t1 (label_edges (project level_camera ?o 800 600)
        (project level_camera ?tx 800 600) 800 600)"
    by simp
  then have j: "(1 / 6000 :: real) \<le> 19 / 6000"
    by (simp only: t1)
  from a2 t1 a3 i j b1 dg show ?thesis by blast
qed

section \<open>Zoom scales the projection\<close>

text \<open>
  C9. For a fixed point, pitch, yaw and viewport, the two coordinates of \<open>project\<close>,
  taken as offsets from the centre of the viewport, are monotone functions of the zoom:
  each of them is either non-decreasing or non-increasing in the zoom. The vertical offset
  is proportional to the zoom, and so is the horizontal offset once the fixed bias of 100
  pixels is added back.
\<close>

theorem project_zoom_monotone:
  "offset_x (camera\<lparr>zoom := k\<rparr>) p width height + 100 =
     k * (offset_x (camera\<lparr>zoom := 1\<rparr>) p width height + 100)
   \<and> offset_y (camera\<lparr>zoom := k\<rparr>) p width height =
     k * offset_y (camera\<lparr>zoom := 1\<rparr>) p width height
   \<and> ((\<forall>k1 k2. k1 \<le> k2 \<longrightarrow>
        offset_x (camera\<lparr>zoom := k1\<rparr>) p width height \<le> offset_x (camera\<lparr>zoom := k2\<rparr>) p width height)
    \<or> (\<forall>k1 k2. k1 \<le> k2 \<longrightarrow>
        offset_x (camera\<lparr>zoom := k2\<rparr>) p width height \<le> offset_x (camera\<lparr>zoom := k1\<rparr>) p width height))
   \<and> ((\<forall>k1 k2. k1 \<le> k2 \<longrightarrow>
        offset_y (camera\<lparr>zoom := k1\<rparr>) p width height \<le> offset_y (camera\<lparr>zoom := k2\<rparr>) p width height)
    \<or> (\<forall>k1 k2. k1 \<le> k2 \<longrightarrow>
        offset_y (camera\<lparr>zoom := k2\<rparr>) p width height \<le> offset_y (camera\<lparr>zoom := k1\<rparr>) p width height))"
proof -
  let ?a = "x (view_point camera p) * (600 / max 1 (view_depth camera p))"
  let ?c = "- z (view_point camera p) * (600 / max 1 (view_depth camera p))"
  have m: "((\<forall>k1 k2. k1 \<le> k2 \<longrightarrow>
        offset_x (camera\<lparr>zoom := k1\<rparr>) p width height \<le> offset_x (camera\<lparr>zoom := k2\<rparr>) p width height)
    \<or> (\<forall>k1 k2. k1 \<le> k2 \<longrightarrow>
        offset_x (camera\<lparr>zoom := k2\<rparr>) p width height \<le> offset_x (camera\<lparr>zoom := k1\<rparr>) p width height))
   \<and> ((\<forall>k1 k2. k1 \<le> k2 \<longrightarrow>
        offset_y (camera\<lparr>zoom := k1\<rparr>) p width height \<le> offset_y (camera\<lparr>zoom := k2\<rparr>) p width height)
    \<or> (\<forall>k1 k2. k1 \<le> k2 \<longrightarrow>
        offset_y (camera\<lparr>zoom := k2\<rparr>) p width height \<le> offset_y (camera\<lparr>zoom := k1\<rparr>) p width height))"
    using scaled_monotone [of ?a "- 100"] scaled_monotone [of ?c 0]
    by (simp only: offset_x_affine offset_y_linear add_0_right diff_conv_add_uminus)
  have l: "offset_x (camera\<lparr>zoom := k\<rparr>) p width height + 100 =
      k * (offset_x (camera\<lparr>zoom := 1\<rparr>) p width height + 100)
    \<and> offset_y (camera\<lparr>zoom := k\<rparr>) p width height =
      k * offset_y (camera\<lparr>zoom := 1\<rparr>) p width height"
    by (simp add: offset_x_affine offset_y_linear)
  from l m show ?thesis by blast
qed

theorem project_zoom_monotone_witness:
  "(1::real) \<le> 2
   \<and> offset_x (level_camera\<lparr>zoom := 1\<rparr>) sample_point 800 600 = - 85
   \<and> offset_x (level_camera\<lparr>zoom := 2\<rparr>) sample_point 800 600 = - 70
   \<and> offset_x (level_camera\<lparr>zoom := 1\<rparr>) sample_point 800 600
       \<le> offset_x (level_camera\<lparr>zoom := 2\<rparr>) sample_point 800 600
   \<and> offset_y (level_camera\<lparr>zoom := 1\<rparr>) sample_point 800 600 = - (15 / 2)
   \<and> offset_y (level_camera\<lparr>zoom := 2\<rparr>) sample_point 800 600 = - 15
   \<and> offset_y (level_camera\<lparr>zoom := 2\<rparr>) sample_point 800 600
       \<le> offset_y (level_camera\<lparr>zoom := 1\<rparr>) sample_point 800 600"
  using project_zoom_monotone
    [where camera = level_camera and k = 2 and p = sample_point and width = 800 and height = 600]
  by (simp add: offset_x_def offset_y_def project_def level_camera_def sample_point_def Let_def)

section \<open>The bounds check reads the position before the step\<close>

text \<open>
  C10. For a state whose position components all have absolute value at most 320 (and
  parameters with positive mass), \<open>stepPhysics\<close> completes and appends the new position
  to the history as its last entry, whatever the new position is: it is not checked
  against the bounds. When the new position is out of bounds, it is the next call of
  \<open>stepPhysics\<close> that signals \<open>onStop\<close>.
\<close>

theorem stepPhysics_checks_old_position:
  assumes "\<not> out_of_bounds (position st)" and "0 < mass ps"
  shows "fst (stepPhysics ps st) = Stepped
    \<and> history (snd (stepPhysics ps st)) =
        push_history (history st) (position (snd (stepPhysics ps st)))
    \<and> last (history (snd (stepPhysics ps st))) = position (snd (stepPhysics ps st))
    \<and> (if out_of_bounds (position (snd (stepPhysics ps st)))
       then stepPhysics ps (snd (stepPhysics ps st)) = (OnStop, snd (stepPhysics ps st))
       else fst (stepPhysics ps (snd (stepPhysics ps st))) = Stepped)"
proof -
  show ?thesis
    using assms(1) stepPhysics_history [OF assms(1), of ps]
    by (simp add: stepPhysics_signal last_push_history stepPhysics_out_of_bounds)
qed

theorem stepPhysics_checks_old_position_witness:
  "\<not> out_of_bounds (position edge_state) \<and> 0 < mass initial_params
   \<and> fst (stepPhysics initial_params edge_state) = Stepped
   \<and> position (snd (stepPhysics initial_params edge_state)) =
       \<lparr>x = 320 + 2399 / 9600, y = - (4799 / 768000), z = 1 / 10\<rparr>
   \<and> out_of_bounds (position (snd (stepPhysics initial_params edge_state)))
   \<and> history (snd (stepPhysics initial_params edge_state)) =
       [\<lparr>x = 320, y = 0, z = 0\<rparr>, \<lparr>x = 320 + 2399 / 9600, y = - (4799 / 768000), z = 1 / 10\<rparr>]
   \<and> stepPhysics initial_params (snd (stepPhysics initial_params edge_state)) =
       (OnStop, snd (stepPhysics initial_params edge_state))"
proof -
  have h1: "\<not> out_of_bounds (position edge_state)"
    by (simp add: out_of_bounds_def edge_state_def BOUNDS_LIMIT_def)
  have h2: "0 < mass initial_params"
    by (simp add: initial_params_def)
  have p: "position (snd (stepPhysics initial_params edge_state)) =
       \<lparr>x = 320 + 2399 / 9600, y = - (4799 / 768000), z = 1 / 10\<rparr>"
    by (simp add: stepPhysics_def edge_state_def initial_params_def accel_def Let_def DT_def
        BOUNDS_LIMIT_def)
  have oob: "out_of_bounds (position (snd (stepPhysics initial_params edge_state)))"
    by (simp add: p out_of_bounds_def BOUNDS_LIMIT_def)
  have h: "history edge_state = [\<lparr>x = 320, y = 0, z = 0\<rparr>]"
    by (simp add: edge_state_def)
  show ?thesis
    using h1 h2 oob stepPhysics_checks_old_position [OF h1 h2]
    by (simp add: p h push_history_def TRAIL_LENGTH_def)
qed



end
